theory Spec2Isabelle
  imports Main "HOL-Library.AList"
begin

section \<open>Data model\<close>

text \<open>
  The relational classes of the expression engine that a relation's \<open>func\<close> can be.
  The module handles \<open>Eq\<close> on its own and looks the other kinds up in
  \<open>_inverse_relations\<close>; \<open>Ne\<close> is a kind the engine has and the table lacks.
\<close>

datatype kind = Eq | Ne | Ge | Le | Gt | Lt

text \<open>
  The callable handed to \<open>both_sides\<close>. The dispatcher compares it with the names
  below; any other callable is \<open>Other\<close>.
\<close>

datatype func = Add | Mul | Pow_fn | factor | simplify | collect | expand | together | apart
  | Other string

text \<open>The exceptions the module raises, or that Python raises inside it.\<close>

datatype error = TypeError | ValueError | ZeroDivisionError | NotImplementedError
  | KeyError | AttributeError

text \<open>A relation object: \<open>relation.func\<close>, \<open>relation.lhs\<close>, \<open>relation.rhs\<close>.\<close>

datatype 'e relation = Relational (func: kind) (lhs: 'e) (rhs: 'e)

text \<open>
  What a relational class returns when it is called: with \<open>evaluate=False\<close> always the
  relation itself (\<open>Unevaluated\<close>), with the default evaluation possibly a boolean atom.
\<close>

datatype 'e formula = Unevaluated "'e relation" | BooleanTrue | BooleanFalse

text \<open>The first argument of \<open>solveset\<close>: a relational such as \<open>argument>0\<close>, or an
  expression, whose zeros are meant.\<close>

datatype 'e target = Formula "'e formula" | Expression 'e

text \<open>The questions the module puts to the assumption system and to the solver.\<close>

datatype ('e, 'd) query = Is_positive 'e | Is_negative 'e
  | Solveset "'e target" "'e option" 'd

text \<open>A call returns one relation, or a dictionary from subsets of the interval to relations.
  The dictionary is the list of its items in insertion order.\<close>

datatype ('e, 'd) result = Single "'e formula" | Cases "('d \<times> 'e formula) list"

text \<open>
  The expression engine (sympy) is not part of the module. Everything the module uses of it
  is a field of this record: \<open>Integer n\<close> is the expression a Python integer literal
  becomes, \<open>add\<close>, \<open>mul\<close> and \<open>truediv\<close> are the operators \<open>+\<close>, \<open>*\<close> and \<open>/\<close>,
  \<open>is_positive\<close> and \<open>is_negative\<close> are the three-valued assumption properties,
  \<open>new k a b\<close> is the relational class \<open>k\<close> called with evaluation, \<open>solveset\<close> and
  \<open>intersect\<close> are the solver and the intersection of sets, and \<open>call f args\<close> is the call
  of \<open>f\<close> on positional arguments, each an expression or \<open>None\<close>, which may raise.
\<close>

record ('e, 'd) engine =
  Integer :: "int \<Rightarrow> 'e"
  add :: "'e \<Rightarrow> 'e \<Rightarrow> 'e"
  mul :: "'e \<Rightarrow> 'e \<Rightarrow> 'e"
  truediv :: "'e \<Rightarrow> 'e \<Rightarrow> 'e"
  is_positive :: "'e \<Rightarrow> bool option"
  is_negative :: "'e \<Rightarrow> bool option"
  new :: "kind \<Rightarrow> 'e \<Rightarrow> 'e \<Rightarrow> 'e formula"
  solveset :: "'e target \<Rightarrow> 'e option \<Rightarrow> 'd \<Rightarrow> 'd"
  intersect :: "'d \<Rightarrow> 'd \<Rightarrow> 'd"
  EmptySet :: "'d"
  call :: "func \<Rightarrow> 'e option list \<Rightarrow> error + 'e"

section \<open>The direction table\<close>

text \<open>\<open>_inverse_relations = { Ge: Le, Le: Ge, Gt: Lt, Lt: Gt }\<close>; a lookup of a missing key
  raises \<open>KeyError\<close>.\<close>

definition inverse_relations :: "kind \<rightharpoonup> kind" where
  "inverse_relations = map_of [(Ge, Le), (Le, Ge), (Gt, Lt), (Lt, Gt)]"

section \<open>Queries and their log\<close>

text \<open>
  Every function returns the list of the queries it has made, in order, beside its outcome.
  \<open>no_query\<close> finishes without asking, \<open>then_with\<close> runs a second step after a first.
\<close>

definition no_query :: "'a \<Rightarrow> 'q list \<times> 'a" where
  "no_query x = ([], x)"

definition then_with :: "'q list \<times> 'a \<Rightarrow> ('a \<Rightarrow> 'q list \<times> 'b) \<Rightarrow> 'q list \<times> 'b" where
  "then_with m f = (fst m @ fst (f (snd m)), snd (f (snd m)))"

text \<open>\<open>e.is_positive == True\<close> and \<open>e.is_negative == True\<close>.\<close>

definition is_positive_True :: "('e, 'd) engine \<Rightarrow> 'e \<Rightarrow> ('e, 'd) query list \<times> bool" where
  "is_positive_True eng e = ([Is_positive e], is_positive eng e = Some True)"

definition is_negative_True :: "('e, 'd) engine \<Rightarrow> 'e \<Rightarrow> ('e, 'd) query list \<times> bool" where
  "is_negative_True eng e = ([Is_negative e], is_negative eng e = Some True)"

text \<open>Python's \<open>and\<close>: the right operand is evaluated only when the left one is true.\<close>

definition py_and :: "'q list \<times> bool \<Rightarrow> 'q list \<times> bool \<Rightarrow> 'q list \<times> bool" where
  "py_and a b = then_with a (\<lambda>x. if x then b else no_query False)"

definition ask_solveset ::
  "('e, 'd) engine \<Rightarrow> 'e target \<Rightarrow> 'e option \<Rightarrow> 'd \<Rightarrow> ('e, 'd) query list \<times> 'd" where
  "ask_solveset eng t v d = ([Solveset t v d], solveset eng t v d)"

text \<open>A dictionary display \<open>{k1: v1, k2: v2, ...}\<close> stores its items from left to right; a key
  that is already there keeps its place and takes the new value.\<close>

definition dict_display :: "('k \<times> 'v) list \<Rightarrow> ('k \<times> 'v) list" where
  "dict_display kvs = foldl (\<lambda>d kv. AList.update (fst kv) (snd kv) d) [] kvs"

section \<open>The inequality rules\<close>

text \<open>\<open>_both_sides_add_ineq\<close>. With \<open>argument\<close> left at \<open>None\<close>, \<open>relation.lhs+argument\<close> is a
  \<open>TypeError\<close> of the interpreter.\<close>

definition both_sides_add_ineq ::
  "('e, 'd) engine \<Rightarrow> 'e relation \<Rightarrow> 'e option \<Rightarrow> ('e, 'd) query list \<times> (error + ('e, 'd) result)"
  where
  "both_sides_add_ineq eng relation argument =
     (case argument of
        None \<Rightarrow> no_query (Inl TypeError)
      | Some a \<Rightarrow> no_query (Inr (Single (Unevaluated
          (Relational (func relation) (add eng (lhs relation) a) (add eng (rhs relation) a))))))"

text \<open>\<open>_both_sides_mul_ineq\<close>. With \<open>argument\<close> left at \<open>None\<close>, \<open>argument.is_positive\<close> is an
  \<open>AttributeError\<close> and \<open>argument>0\<close> a \<open>TypeError\<close> of the interpreter.\<close>

definition both_sides_mul_ineq ::
  "('e, 'd) engine \<Rightarrow> 'e relation \<Rightarrow> 'e option \<Rightarrow> 'd option \<Rightarrow> 'e option
     \<Rightarrow> ('e, 'd) query list \<times> (error + ('e, 'd) result)"
  where
  "both_sides_mul_ineq eng relation argument interval variable =
     (case interval of
        None \<Rightarrow>
          (case argument of
             None \<Rightarrow> no_query (Inl AttributeError)
           | Some a \<Rightarrow>
               then_with (is_positive_True eng a) (\<lambda>p.
                 if p then no_query (Inr (Single (Unevaluated
                   (Relational (func relation) (mul eng (lhs relation) a) (mul eng (rhs relation) a)))))
                 else then_with (is_negative_True eng a) (\<lambda>n.
                   if n then no_query
                     (case inverse_relations (func relation) of
                        None \<Rightarrow> Inl KeyError
                      | Some k \<Rightarrow> Inr (Single (Unevaluated
                          (Relational k (mul eng (lhs relation) a) (mul eng (rhs relation) a)))))
                   else if a = Integer eng 0 then no_query
                     (Inr (Single (new eng (func relation) (Integer eng 0) (Integer eng 0))))
                   else no_query (Inl ValueError))))
      | Some iv \<Rightarrow>
          (case variable of
             None \<Rightarrow> no_query (Inl TypeError)
           | Some v \<Rightarrow>
               (case argument of
                  None \<Rightarrow> no_query (Inl TypeError)
                | Some a \<Rightarrow>
                    then_with (ask_solveset eng (Formula (new eng Gt a (Integer eng 0))) (Some v) iv)
                      (\<lambda>positive_interval.
                    then_with (ask_solveset eng (Formula (new eng Lt a (Integer eng 0))) (Some v) iv)
                      (\<lambda>negative_interval.
                    then_with (ask_solveset eng (Expression a) (Some v) iv)
                      (\<lambda>zeros.
                    no_query
                      (case inverse_relations (func relation) of
                         None \<Rightarrow> Inl KeyError
                       | Some k \<Rightarrow> Inr (Cases (dict_display
                           [(positive_interval, Unevaluated (Relational (func relation)
                               (mul eng (lhs relation) a) (mul eng (rhs relation) a))),
                            (negative_interval, Unevaluated (Relational k
                               (mul eng (lhs relation) a) (mul eng (rhs relation) a))),
                            (zeros, new eng (func relation) (Integer eng 0) (Integer eng 0))])))))))))"

text \<open>The reciprocals \<open>1/relation.lhs\<close> and \<open>1/relation.rhs\<close> under a relational class called
  with \<open>evaluate=False\<close>.\<close>

definition reciprocals :: "('e, 'd) engine \<Rightarrow> kind \<Rightarrow> 'e relation \<Rightarrow> 'e formula" where
  "reciprocals eng k relation = Unevaluated (Relational k
     (truediv eng (Integer eng 1) (lhs relation)) (truediv eng (Integer eng 1) (rhs relation)))"

text \<open>\<open>result[key] = value\<close> under \<open>if key != EmptySet()\<close>.\<close>

definition store_unless_empty ::
  "('e, 'd) engine \<Rightarrow> 'd \<Rightarrow> 'e formula \<Rightarrow> ('d \<times> 'e formula) list \<Rightarrow> ('d \<times> 'e formula) list" where
  "store_unless_empty eng key val res =
     (if key \<noteq> EmptySet eng then AList.update key val res else res)"

text \<open>\<open>_both_sides_pow_ineq\<close>.\<close>

definition both_sides_pow_ineq ::
  "('e, 'd) engine \<Rightarrow> 'e relation \<Rightarrow> 'e option \<Rightarrow> 'd option \<Rightarrow> 'e option
     \<Rightarrow> ('e, 'd) query list \<times> (error + ('e, 'd) result)"
  where
  "both_sides_pow_ineq eng relation argument interval variable =
     (if argument = Some (Integer eng (- 1)) then
        (case interval of
           None \<Rightarrow>
             (case variable of
                None \<Rightarrow> no_query (Inl TypeError)
              | Some v \<Rightarrow>
                  then_with (py_and (is_positive_True eng (lhs relation))
                                    (is_positive_True eng (rhs relation))) (\<lambda>pp.
                    if pp then no_query (Inr (Single (reciprocals eng (func relation) relation)))
                    else
                  then_with (py_and (is_positive_True eng (lhs relation))
                                    (is_negative_True eng (rhs relation))) (\<lambda>pn.
                    if pn then no_query (Inr (Single (reciprocals eng (func relation) relation)))
                    else
                  then_with (py_and (is_negative_True eng (lhs relation))
                                    (is_positive_True eng (rhs relation))) (\<lambda>np.
                    if np then no_query (Inr (Single (reciprocals eng (func relation) relation)))
                    else
                  then_with (py_and (is_negative_True eng (lhs relation))
                                    (is_negative_True eng (rhs relation))) (\<lambda>nn.
                    if nn then no_query
                      (case inverse_relations (func relation) of
                         None \<Rightarrow> Inl KeyError
                       | Some k \<Rightarrow> Inr (Single (reciprocals eng k relation)))
                    else if lhs relation = Integer eng 0 then no_query (Inl ZeroDivisionError)
                    else if rhs relation = Integer eng 0 then no_query (Inl ZeroDivisionError)
                    else no_query (Inl ValueError))))))
         | Some iv \<Rightarrow>
             then_with (ask_solveset eng
                 (Formula (new eng Gt (lhs relation) (Integer eng 0))) variable iv)
               (\<lambda>lhs_positive_interval.
             then_with (ask_solveset eng
                 (Formula (new eng Gt (rhs relation) (Integer eng 0))) variable iv)
               (\<lambda>rhs_positive_interval.
             then_with (ask_solveset eng
                 (Formula (new eng Lt (lhs relation) (Integer eng 0))) variable iv)
               (\<lambda>lhs_negative_interval.
             then_with (ask_solveset eng
                 (Formula (new eng Lt (rhs relation) (Integer eng 0))) variable iv)
               (\<lambda>rhs_negative_interval.
             no_query
               (if lhs relation = Integer eng 0 then Inl ZeroDivisionError
                else if rhs relation = Integer eng 0 then Inl ZeroDivisionError
                else
                  (case inverse_relations (func relation) of
                     None \<Rightarrow> Inl KeyError
                   | Some k \<Rightarrow>
                       (let pp_interval = intersect eng lhs_positive_interval rhs_positive_interval;
                            nn_interval = intersect eng lhs_negative_interval rhs_negative_interval;
                            eqsigns = reciprocals eng k relation;
                            pn_interval = intersect eng lhs_positive_interval rhs_negative_interval;
                            np_interval = intersect eng lhs_negative_interval rhs_positive_interval;
                            difsigns = reciprocals eng (func relation) relation
                        in Inr (Cases
                             (store_unless_empty eng np_interval difsigns
                             (store_unless_empty eng pn_interval difsigns
                             (store_unless_empty eng pp_interval eqsigns
                             (store_unless_empty eng nn_interval eqsigns [])))))))))))))
      else no_query (Inl NotImplementedError))"

section \<open>The dispatcher\<close>

text \<open>\<open>Eq( function(relation.lhs,argument), function(relation.rhs,argument) )\<close>: the two calls
  from left to right, the first exception propagating, then \<open>Eq\<close> called with evaluation.\<close>

definition Eq_of_calls ::
  "('e, 'd) engine \<Rightarrow> func \<Rightarrow> 'e relation \<Rightarrow> 'e option \<Rightarrow> error + ('e, 'd) result" where
  "Eq_of_calls eng function relation argument =
     (case call eng function [Some (lhs relation), argument] of
        Inl e \<Rightarrow> Inl e
      | Inr l \<Rightarrow>
          (case call eng function [Some (rhs relation), argument] of
             Inl e \<Rightarrow> Inl e
           | Inr r \<Rightarrow> Inr (Single (new eng Eq l r))))"

text \<open>\<open>both_sides\<close> of \<open>sympy_relational_tools\<close>.\<close>

definition both_sides ::
  "('e, 'd) engine \<Rightarrow> 'e relation \<Rightarrow> func \<Rightarrow> 'e option \<Rightarrow> 'd option \<Rightarrow> 'e option
     \<Rightarrow> ('e, 'd) query list \<times> (error + ('e, 'd) result)"
  where
  "both_sides eng relation function argument interval variable =
     (if func relation = Eq then no_query (Eq_of_calls eng function relation argument)
      else if function = Add then both_sides_add_ineq eng relation argument
      else if function = Mul then both_sides_mul_ineq eng relation argument interval variable
      else if function = Pow_fn then both_sides_pow_ineq eng relation argument interval variable
      else if function \<in> set [factor, simplify, collect, expand, together, apart] then
        no_query
          (case call eng function [Some (lhs relation)] of
             Inl e \<Rightarrow> Inl e
           | Inr l \<Rightarrow>
               (case call eng function [Some (rhs relation)] of
                  Inl e \<Rightarrow> Inl e
                | Inr r \<Rightarrow> Inr (Single (Unevaluated (Relational (func relation) l r)))))
      else no_query (Inl NotImplementedError))"

text \<open>\<open>both_sides\<close> of \<open>sympy_equation_tools\<close>, which takes an equation, a function and an
  argument and does not look at the kind.\<close>

definition equation_tools_both_sides ::
  "('e, 'd) engine \<Rightarrow> 'e relation \<Rightarrow> func \<Rightarrow> 'e option
     \<Rightarrow> ('e, 'd) query list \<times> (error + ('e, 'd) result)"
  where
  "equation_tools_both_sides eng equation function argument =
     no_query (Eq_of_calls eng function equation argument)"

section \<open>A small engine to run the module on\<close>

text \<open>
  Terms that are built and never rewritten: integer literals, symbols that carry the sign
  assumed for them, sums, products, quotients and applications of a function.
\<close>

datatype sgn = Positive | Negative | Zero

datatype expr = Lit int | Symbol string "sgn option" | SAdd expr expr | SMul expr expr
  | SDiv expr expr | App func "expr option list"

datatype region = Empty | Interval int int | ConditionSet "expr target" "expr option" region
  | Intersection region region

fun sign_of :: "expr \<Rightarrow> sgn option" where
  "sign_of (Lit n) = Some (if 0 < n then Positive else if n < 0 then Negative else Zero)"
| "sign_of (Symbol x s) = s"
| "sign_of (SMul a b) =
     (case (sign_of a, sign_of b) of
        (Some Zero, _) \<Rightarrow> Some Zero
      | (_, Some Zero) \<Rightarrow> Some Zero
      | (Some x, Some y) \<Rightarrow> Some (if x = y then Positive else Negative)
      | _ \<Rightarrow> None)"
| "sign_of _ = None"

fun compare :: "kind \<Rightarrow> int \<Rightarrow> int \<Rightarrow> bool" where
  "compare Eq m n = (m = n)"
| "compare Ne m n = (m \<noteq> n)"
| "compare Ge m n = (n \<le> m)"
| "compare Le m n = (m \<le> n)"
| "compare Gt m n = (n < m)"
| "compare Lt m n = (m < n)"

fun term_new :: "kind \<Rightarrow> expr \<Rightarrow> expr \<Rightarrow> expr formula" where
  "term_new k (Lit m) (Lit n) = (if compare k m n then BooleanTrue else BooleanFalse)"
| "term_new k a b = (if k = Eq \<and> a = b then BooleanTrue else Unevaluated (Relational k a b))"

fun term_solveset :: "expr target \<Rightarrow> expr option \<Rightarrow> region \<Rightarrow> region" where
  "term_solveset (Formula BooleanTrue) v d = d"
| "term_solveset (Formula BooleanFalse) v d = Empty"
| "term_solveset (Expression (Lit n)) v d = (if n = 0 then d else Empty)"
| "term_solveset t v d = ConditionSet t v d"

definition term_intersect :: "region \<Rightarrow> region \<Rightarrow> region" where
  "term_intersect a b =
     (if a = Empty \<or> b = Empty then Empty else if a = b then a else Intersection a b)"

text \<open>A call builds the application. \<open>collect(expr, syms, ...)\<close> has two required parameters,
  so a call of \<open>collect\<close> on fewer than two arguments is a \<open>TypeError\<close> of the interpreter.\<close>

definition term_call :: "func \<Rightarrow> expr option list \<Rightarrow> error + expr" where
  "term_call f args =
     (if f = collect \<and> length args < 2 then Inl TypeError else Inr (App f args))"

definition terms :: "(expr, region) engine" where
  "terms = \<lparr>Integer = Lit, add = SAdd, mul = SMul, truediv = SDiv,
     is_positive = (\<lambda>e. map_option (\<lambda>s. s = Positive) (sign_of e)),
     is_negative = (\<lambda>e. map_option (\<lambda>s. s = Negative) (sign_of e)),
     new = term_new, solveset = term_solveset, intersect = term_intersect,
     EmptySet = Empty, call = term_call\<rparr>"

section \<open>The direction table is an involution\<close>

lemma inverse_relations_simps:
  "inverse_relations Ge = Some Le" "inverse_relations Le = Some Ge"
  "inverse_relations Gt = Some Lt" "inverse_relations Lt = Some Gt"
  "inverse_relations Eq = None" "inverse_relations Ne = None"
  by (simp_all add: inverse_relations_def)

text \<open>
  C9. For every comparison kind \<open>k\<close> among \<open>Ge\<close>, \<open>Le\<close>, \<open>Gt\<close>, \<open>Lt\<close>, the table has an entry
  for \<open>k\<close>, and looking that entry up again gives \<open>k\<close> back.
\<close>

theorem inverse_relations_involution:
  "k \<in> {Ge, Le, Gt, Lt} \<Longrightarrow>
     \<exists>k'. inverse_relations k = Some k' \<and> inverse_relations k' = Some k"
  by (auto simp: inverse_relations_simps)

theorem inverse_relations_involution_witness:
  "Ge \<in> {Ge, Le, Gt, Lt} \<and>
     (\<exists>k'. inverse_relations Ge = Some k' \<and> inverse_relations k' = Some Ge)"
  using inverse_relations_involution [of Ge] by simp

section \<open>Running the module: unfolding rules and the dictionary of three items\<close>

lemmas run_defs = no_query_def then_with_def py_and_def is_positive_True_def
  is_negative_True_def ask_solveset_def

lemmas terms_defs = terms_def term_intersect_def term_call_def reciprocals_def
  store_unless_empty_def dict_display_def

lemma dict_display3_map_of:
  "map_of (dict_display [(p, a), (n, b), (z, c)]) k =
     (if k = z then Some c else if k = n then Some b else if k = p then Some a else None)"
  by (simp add: dict_display_def update_conv')

lemma dict_display3_keys:
  "fst ` set (dict_display [(p, a), (n, b), (z, c)]) = {p, n, z}"
  by (auto simp: dict_display_def dom_update)

lemma dict_display3_distinct:
  "distinct (map fst (dict_display [(p, a), (n, b), (z, c)]))"
  by (simp add: dict_display_def distinct_update)

lemma dict_display3_length:
  "length (dict_display [(p, a), (n, b), (z, c)]) = card {p, n, z}"
proof -
  have "length (dict_display [(p, a), (n, b), (z, c)])
      = length (map fst (dict_display [(p, a), (n, b), (z, c)]))" by simp
  also have "\<dots> = card (set (map fst (dict_display [(p, a), (n, b), (z, c)])))"
    using dict_display3_distinct [of p a n b z c] by (simp only: distinct_card)
  also have "\<dots> = card {p, n, z}"
    using dict_display3_keys [of p a n b z c] by simp
  finally show ?thesis .
qed

lemma card_three_le: "card {p, n, z} \<le> 3"
  by (simp add: card_insert_if)

section \<open>Multiplication\<close>

text \<open>With an interval, a variable and an argument, and a kind the table inverts, the function
  asks the solver three times and returns the dictionary of the three items.\<close>

lemma mul_interval:
  assumes "inverse_relations (func r) = Some k"
  shows "both_sides_mul_ineq eng r (Some a) (Some iv) (Some v) =
    ([Solveset (Formula (new eng Gt a (Integer eng 0))) (Some v) iv,
      Solveset (Formula (new eng Lt a (Integer eng 0))) (Some v) iv,
      Solveset (Expression a) (Some v) iv],
     Inr (Cases (dict_display
       [(solveset eng (Formula (new eng Gt a (Integer eng 0))) (Some v) iv,
           Unevaluated (Relational (func r) (mul eng (lhs r) a) (mul eng (rhs r) a))),
        (solveset eng (Formula (new eng Lt a (Integer eng 0))) (Some v) iv,
           Unevaluated (Relational k (mul eng (lhs r) a) (mul eng (rhs r) a))),
        (solveset eng (Expression a) (Some v) iv,
           new eng (func r) (Integer eng 0) (Integer eng 0))])))"
  using assms by (simp add: both_sides_mul_ineq_def run_defs)

lemma mul_global_zero:
  assumes "is_positive eng (Integer eng 0) \<noteq> Some True"
      and "is_negative eng (Integer eng 0) \<noteq> Some True"
  shows "both_sides_mul_ineq eng r (Some (Integer eng 0)) None variable =
    ([Is_positive (Integer eng 0), Is_negative (Integer eng 0)],
     Inr (Single (new eng (func r) (Integer eng 0) (Integer eng 0))))"
  using assms by (simp add: both_sides_mul_ineq_def run_defs)

lemma mul_interval_no_variable:
  "both_sides_mul_ineq eng r argument (Some iv) None = ([], Inl TypeError)"
  by (simp add: both_sides_mul_ineq_def run_defs)

text \<open>
  C2, as the code has it. For an inequality and the literal zero as argument, where the
  assumption system calls zero neither positive nor negative: without an interval the result is
  the relation's own class called on \<open>(0, 0)\<close>, and with an interval and a variable the
  dictionary holds that same value under the subset where the argument vanishes, when that
  subset is not the empty set.
\<close>

theorem mul_zero_keeps_kind:
  assumes "inverse_relations (func r) = Some k"
      and "is_positive eng (Integer eng 0) \<noteq> Some True"
      and "is_negative eng (Integer eng 0) \<noteq> Some True"
  shows "snd (both_sides_mul_ineq eng r (Some (Integer eng 0)) None variable)
           = Inr (Single (new eng (func r) (Integer eng 0) (Integer eng 0)))
       \<and> (\<exists>d. snd (both_sides_mul_ineq eng r (Some (Integer eng 0)) (Some iv) (Some v))
                  = Inr (Cases d)
              \<and> (solveset eng (Expression (Integer eng 0)) (Some v) iv \<noteq> EmptySet eng \<longrightarrow>
                   map_of d (solveset eng (Expression (Integer eng 0)) (Some v) iv)
                     = Some (new eng (func r) (Integer eng 0) (Integer eng 0))))"
  using assms
  by (simp add: mul_global_zero mul_interval dict_display3_map_of)

theorem mul_zero_keeps_kind_witness:
  "inverse_relations (func (Relational Lt (Symbol ''x'' None) (Lit 1))) = Some Gt
   \<and> is_positive terms (Integer terms 0) \<noteq> Some True
   \<and> is_negative terms (Integer terms 0) \<noteq> Some True
   \<and> snd (both_sides_mul_ineq terms (Relational Lt (Symbol ''x'' None) (Lit 1))
            (Some (Integer terms 0)) None None)
         = Inr (Single BooleanFalse)
   \<and> solveset terms (Expression (Integer terms 0)) (Some (Symbol ''x'' None)) (Interval (- 1) 1)
         \<noteq> EmptySet terms
   \<and> (\<exists>d. snd (both_sides_mul_ineq terms (Relational Lt (Symbol ''x'' None) (Lit 1))
                 (Some (Integer terms 0)) (Some (Interval (- 1) 1)) (Some (Symbol ''x'' None)))
              = Inr (Cases d)
          \<and> map_of d (Interval (- 1) 1) = Some BooleanFalse)"
proof -
  have h1: "inverse_relations (func (Relational Lt (Symbol ''x'' None) (Lit 1))) = Some Gt"
    by (simp add: inverse_relations_simps)
  have h2: "is_positive terms (Integer terms 0) \<noteq> Some True"
    by (simp add: terms_def)
  have h3: "is_negative terms (Integer terms 0) \<noteq> Some True"
    by (simp add: terms_def)
  have e: "new terms Lt (Integer terms 0) (Integer terms 0) = BooleanFalse"
       "solveset terms (Expression (Integer terms 0)) (Some (Symbol ''x'' None)) (Interval (- 1) 1)
          = Interval (- 1) 1"
    by (simp_all add: terms_def)
  show ?thesis
    using h1 h2 h3
      mul_zero_keeps_kind [OF h1 h2 h3, of None "Interval (- 1) 1" "Symbol ''x'' None"]
    by (simp only: e relation.sel) (simp add: terms_def)
qed

text \<open>The claim's \<open>Eq(0,0)\<close> is not what a strict inequality gives: \<open>Lt(0, 0)\<close> is the result,
  which is neither \<open>Eq\<close> called on \<open>(0, 0)\<close> nor the relation \<open>Eq(0, 0)\<close> left unevaluated.\<close>

theorem mul_zero_Eq_counterexample:
  "snd (both_sides_mul_ineq terms (Relational Lt (Symbol ''x'' None) (Lit 1))
          (Some (Integer terms 0)) None None)
     \<noteq> Inr (Single (new terms Eq (Integer terms 0) (Integer terms 0)))
   \<and> snd (both_sides_mul_ineq terms (Relational Lt (Symbol ''x'' None) (Lit 1))
          (Some (Integer terms 0)) None None)
     \<noteq> Inr (Single (Unevaluated (Relational Eq (Integer terms 0) (Integer terms 0))))"
  by (simp add: both_sides_mul_ineq_def run_defs terms_defs)

text \<open>
  C4, as the code has it. With an interval, a variable and an argument, an inequality gives a
  dictionary of at most three items whose keys are among the subsets where the argument is
  positive, negative and zero. Of those subsets that are not the empty set, the zero subset
  carries the relation's own class called on \<open>(0, 0)\<close>; the negative subset, unless it equals
  the zero subset, the scaled relation of inverted kind; the positive subset, unless it equals
  one of the other two, the scaled relation of the same kind.
\<close>

theorem mul_interval_cases:
  assumes "inverse_relations (func r) = Some k"
  shows "let P = solveset eng (Formula (new eng Gt a (Integer eng 0))) (Some v) iv;
             N = solveset eng (Formula (new eng Lt a (Integer eng 0))) (Some v) iv;
             Z = solveset eng (Expression a) (Some v) iv
         in \<exists>d. snd (both_sides_mul_ineq eng r (Some a) (Some iv) (Some v)) = Inr (Cases d)
              \<and> length d \<le> 3 \<and> fst ` set d \<subseteq> {P, N, Z}
              \<and> (Z \<noteq> EmptySet eng \<longrightarrow>
                   map_of d Z = Some (new eng (func r) (Integer eng 0) (Integer eng 0)))
              \<and> (N \<noteq> EmptySet eng \<and> N \<noteq> Z \<longrightarrow>
                   map_of d N = Some (Unevaluated
                     (Relational k (mul eng (lhs r) a) (mul eng (rhs r) a))))
              \<and> (P \<noteq> EmptySet eng \<and> P \<noteq> N \<and> P \<noteq> Z \<longrightarrow>
                   map_of d P = Some (Unevaluated
                     (Relational (func r) (mul eng (lhs r) a) (mul eng (rhs r) a))))"
  using assms
  by (simp add: Let_def mul_interval dict_display3_map_of dict_display3_keys
      dict_display3_length card_three_le)

theorem mul_interval_cases_witness:
  "inverse_relations (func (Relational Ge (Symbol ''x'' None) (Lit 1))) = Some Le
   \<and> (\<exists>d. snd (both_sides_mul_ineq terms (Relational Ge (Symbol ''x'' None) (Lit 1))
                 (Some (Symbol ''y'' None)) (Some (Interval (- 1) 1)) (Some (Symbol ''y'' None)))
              = Inr (Cases d)
          \<and> length d \<le> 3
          \<and> map_of d (ConditionSet (Expression (Symbol ''y'' None)) (Some (Symbol ''y'' None))
                         (Interval (- 1) 1))
              = Some BooleanTrue
          \<and> map_of d (ConditionSet
                         (Formula (Unevaluated (Relational Lt (Symbol ''y'' None) (Lit 0))))
                         (Some (Symbol ''y'' None)) (Interval (- 1) 1))
              = Some (Unevaluated (Relational Le
                        (SMul (Symbol ''x'' None) (Symbol ''y'' None))
                        (SMul (Lit 1) (Symbol ''y'' None))))
          \<and> map_of d (ConditionSet
                         (Formula (Unevaluated (Relational Gt (Symbol ''y'' None) (Lit 0))))
                         (Some (Symbol ''y'' None)) (Interval (- 1) 1))
              = Some (Unevaluated (Relational Ge
                        (SMul (Symbol ''x'' None) (Symbol ''y'' None))
                        (SMul (Lit 1) (Symbol ''y'' None)))))"
proof -
  have h: "inverse_relations (func (Relational Ge (Symbol ''x'' None) (Lit 1))) = Some Le"
    by (simp add: inverse_relations_simps)
  show ?thesis
    using h mul_interval_cases [OF h, of terms "Symbol ''y'' None" "Symbol ''y'' None"
        "Interval (- 1) 1"]
    by (auto simp: Let_def terms_def)
qed

text \<open>With \<open>x\<close> itself as the argument of \<open>Lt(x, 1)\<close> no key of the dictionary is the empty set,
  and the value under the zero subset is \<open>Lt(0, 0)\<close>, which is false and is not \<open>Eq(0,0)\<close>. With
  the literal zero as argument the zero subset is the whole interval, with the same value.\<close>

theorem mul_interval_zero_entry_counterexample:
  "snd (both_sides_mul_ineq terms (Relational Lt (Symbol ''x'' None) (Lit 1))
          (Some (Symbol ''x'' None)) (Some (Interval (- 1) 1)) (Some (Symbol ''x'' None)))
     = Inr (Cases
         [(ConditionSet (Formula (Unevaluated (Relational Gt (Symbol ''x'' None) (Lit 0))))
             (Some (Symbol ''x'' None)) (Interval (- 1) 1),
           Unevaluated (Relational Lt (SMul (Symbol ''x'' None) (Symbol ''x'' None))
                                      (SMul (Lit 1) (Symbol ''x'' None)))),
          (ConditionSet (Formula (Unevaluated (Relational Lt (Symbol ''x'' None) (Lit 0))))
             (Some (Symbol ''x'' None)) (Interval (- 1) 1),
           Unevaluated (Relational Gt (SMul (Symbol ''x'' None) (Symbol ''x'' None))
                                      (SMul (Lit 1) (Symbol ''x'' None)))),
          (ConditionSet (Expression (Symbol ''x'' None))
             (Some (Symbol ''x'' None)) (Interval (- 1) 1),
           BooleanFalse)])
   \<and> ConditionSet (Formula (Unevaluated (Relational Gt (Symbol ''x'' None) (Lit 0))))
         (Some (Symbol ''x'' None)) (Interval (- 1) 1) \<noteq> EmptySet terms
   \<and> ConditionSet (Formula (Unevaluated (Relational Lt (Symbol ''x'' None) (Lit 0))))
         (Some (Symbol ''x'' None)) (Interval (- 1) 1) \<noteq> EmptySet terms
   \<and> ConditionSet (Expression (Symbol ''x'' None))
         (Some (Symbol ''x'' None)) (Interval (- 1) 1) \<noteq> EmptySet terms
   \<and> solveset terms (Expression (Lit 0)) (Some (Symbol ''x'' None)) (Interval (- 1) 1)
       = Interval (- 1) 1
   \<and> Interval (- 1) 1 \<noteq> EmptySet terms
   \<and> (case snd (both_sides_mul_ineq terms (Relational Lt (Symbol ''x'' None) (Lit 1))
                  (Some (Lit 0)) (Some (Interval (- 1) 1)) (Some (Symbol ''x'' None))) of
         Inr (Cases d) \<Rightarrow> map_of d (Interval (- 1) 1)
       | _ \<Rightarrow> None) = Some BooleanFalse
   \<and> BooleanFalse \<noteq> new terms Eq (Integer terms 0) (Integer terms 0)
   \<and> BooleanFalse \<noteq> Unevaluated (Relational Eq (Integer terms 0) (Integer terms 0))"
  by (simp add: both_sides_mul_ineq_def run_defs terms_defs inverse_relations_simps)

text \<open>An argument that is positive on the whole interval leaves the empty set in the dictionary
  as a key, where \<open>_both_sides_pow_ineq\<close> stores a key only when it is not the empty set.\<close>

lemma mul_interval_keeps_empty_key:
  "snd (both_sides_mul_ineq terms (Relational Lt (Symbol ''x'' None) (Lit 1))
          (Some (Lit 2)) (Some (Interval (- 1) 1)) (Some (Symbol ''x'' None)))
     = Inr (Cases [(Interval (- 1) 1,
                    Unevaluated (Relational Lt (SMul (Symbol ''x'' None) (Lit 2))
                                               (SMul (Lit 1) (Lit 2)))),
                   (EmptySet terms, BooleanFalse)])"
  by (simp add: both_sides_mul_ineq_def run_defs terms_defs inverse_relations_simps)

text \<open>
  C10. With an interval, a variable and an argument, an inequality gives a dictionary keyed by
  the three subsets themselves: its keys are exactly the positive, the negative and the zero
  subset, each once, so it has as many items as there are different subsets among the three,
  and under each key lies the value of the last of the three cases with that key: the zero
  case before the negative case before the positive case.
\<close>

theorem mul_interval_key_collisions:
  assumes "inverse_relations (func r) = Some k"
  shows "let P = solveset eng (Formula (new eng Gt a (Integer eng 0))) (Some v) iv;
             N = solveset eng (Formula (new eng Lt a (Integer eng 0))) (Some v) iv;
             Z = solveset eng (Expression a) (Some v) iv
         in \<exists>d. snd (both_sides_mul_ineq eng r (Some a) (Some iv) (Some v)) = Inr (Cases d)
              \<and> distinct (map fst d) \<and> fst ` set d = {P, N, Z} \<and> length d = card {P, N, Z}
              \<and> (\<forall>key. map_of d key =
                    (if key = Z then Some (new eng (func r) (Integer eng 0) (Integer eng 0))
                     else if key = N then Some (Unevaluated
                       (Relational k (mul eng (lhs r) a) (mul eng (rhs r) a)))
                     else if key = P then Some (Unevaluated
                       (Relational (func r) (mul eng (lhs r) a) (mul eng (rhs r) a)))
                     else None))"
  using assms
  by (simp add: Let_def mul_interval dict_display3_map_of dict_display3_keys
      dict_display3_length dict_display3_distinct)

text \<open>The literal zero as argument: the positive and the negative subset are both empty, and
  the one item under the empty set is the negative case; the positive case is gone.\<close>

theorem mul_interval_key_collisions_witness:
  "inverse_relations (func (Relational Lt (Symbol ''x'' None) (Lit 1))) = Some Gt
   \<and> (\<exists>d. snd (both_sides_mul_ineq terms (Relational Lt (Symbol ''x'' None) (Lit 1))
                 (Some (Lit 0)) (Some (Interval (- 1) 1)) (Some (Symbol ''x'' None)))
              = Inr (Cases d)
          \<and> length d = 2
          \<and> map_of d Empty = Some (Unevaluated (Relational Gt
                (SMul (Symbol ''x'' None) (Lit 0)) (SMul (Lit 1) (Lit 0))))
          \<and> map_of d (Interval (- 1) 1) = Some BooleanFalse)"
proof -
  have h: "inverse_relations (func (Relational Lt (Symbol ''x'' None) (Lit 1))) = Some Gt"
    by (simp add: inverse_relations_simps)
  show ?thesis
    using h mul_interval_key_collisions [OF h, of terms "Lit 0" "Symbol ''x'' None"
        "Interval (- 1) 1"]
    by (auto simp: Let_def terms_def)
qed

section \<open>Reciprocals\<close>

lemma pow_global_both_positive:
  assumes "is_positive eng (lhs r) = Some True" and "is_positive eng (rhs r) = Some True"
  shows "both_sides_pow_ineq eng r (Some (Integer eng (- 1))) None (Some v) =
    ([Is_positive (lhs r), Is_positive (rhs r)],
     Inr (Single (reciprocals eng (func r) r)))"
  using assms by (simp add: both_sides_pow_ineq_def run_defs)

lemma pow_global_no_variable:
  "both_sides_pow_ineq eng r (Some (Integer eng (- 1))) None None = ([], Inl TypeError)"
  by (simp add: both_sides_pow_ineq_def run_defs)

lemma pow_interval_zero:
  assumes "lhs r = Integer eng 0 \<or> rhs r = Integer eng 0"
  shows "both_sides_pow_ineq eng r (Some (Integer eng (- 1))) (Some iv) variable =
    ([Solveset (Formula (new eng Gt (lhs r) (Integer eng 0))) variable iv,
      Solveset (Formula (new eng Gt (rhs r) (Integer eng 0))) variable iv,
      Solveset (Formula (new eng Lt (lhs r) (Integer eng 0))) variable iv,
      Solveset (Formula (new eng Lt (rhs r) (Integer eng 0))) variable iv],
     Inl ZeroDivisionError)"
  using assms by (auto simp add: both_sides_pow_ineq_def run_defs)

lemma pow_global_zero:
  assumes "lhs r = Integer eng 0 \<or> rhs r = Integer eng 0"
      and "is_positive eng (Integer eng 0) \<noteq> Some True"
      and "is_negative eng (Integer eng 0) \<noteq> Some True"
  shows "snd (both_sides_pow_ineq eng r (Some (Integer eng (- 1))) None (Some v))
           = Inl ZeroDivisionError"
    and "\<exists>qs. fst (both_sides_pow_ineq eng r (Some (Integer eng (- 1))) None (Some v))
           = Is_positive (lhs r) # qs"
  using assms by (auto simp add: both_sides_pow_ineq_def run_defs)

text \<open>With an interval, the function raises no \<open>TypeError\<close>, whether a variable is there
  or not.\<close>

lemma pow_interval_no_TypeError:
  "snd (both_sides_pow_ineq eng r argument (Some iv) variable) \<noteq> Inl TypeError"
  by (simp add: both_sides_pow_ineq_def run_defs Let_def split: option.split)

text \<open>
  C1, at \<open>Ge(x, x**2)\<close> with \<open>x\<close> positive, no interval, and \<open>x\<close> as the variable: both sides
  are found positive and the result is \<open>Ge(1/x, 1/x**2)\<close>, of the same kind as the input.
\<close>

theorem reciprocal_global_both_positive_keeps_kind:
  "both_sides terms
     (Relational Ge (Symbol ''x'' (Some Positive))
        (SMul (Symbol ''x'' (Some Positive)) (Symbol ''x'' (Some Positive))))
     Pow_fn (Some (Lit (- 1))) None (Some (Symbol ''x'' (Some Positive)))
   = ([Is_positive (Symbol ''x'' (Some Positive)),
       Is_positive (SMul (Symbol ''x'' (Some Positive)) (Symbol ''x'' (Some Positive)))],
      Inr (Single (Unevaluated (Relational Ge
        (SDiv (Lit 1) (Symbol ''x'' (Some Positive)))
        (SDiv (Lit 1) (SMul (Symbol ''x'' (Some Positive)) (Symbol ''x'' (Some Positive))))))))"
  by (simp add: both_sides_def both_sides_pow_ineq_def run_defs terms_defs)

text \<open>
  C3, at the same relation with neither interval nor variable: the call raises \<open>TypeError\<close>
  before it has asked for any sign.
\<close>

theorem reciprocal_global_needs_variable:
  "both_sides terms
     (Relational Ge (Symbol ''x'' (Some Positive))
        (SMul (Symbol ''x'' (Some Positive)) (Symbol ''x'' (Some Positive))))
     Pow_fn (Some (Lit (- 1))) None None
   = ([], Inl TypeError)"
  by (simp add: both_sides_def both_sides_pow_ineq_def run_defs terms_defs)

text \<open>
  C5, as the code has it. When a side of the relation is the literal zero, the reciprocal with
  an interval and a variable asks the solver its four questions and then raises
  \<open>ZeroDivisionError\<close>; without an interval and with a variable, where the assumption system
  calls zero neither positive nor negative, it raises \<open>ZeroDivisionError\<close> after queries that
  begin with the sign of the left-hand side.
\<close>

theorem reciprocal_zero_side:
  assumes "lhs r = Integer eng 0 \<or> rhs r = Integer eng 0"
  shows "both_sides_pow_ineq eng r (Some (Integer eng (- 1))) (Some iv) (Some v) =
           ([Solveset (Formula (new eng Gt (lhs r) (Integer eng 0))) (Some v) iv,
             Solveset (Formula (new eng Gt (rhs r) (Integer eng 0))) (Some v) iv,
             Solveset (Formula (new eng Lt (lhs r) (Integer eng 0))) (Some v) iv,
             Solveset (Formula (new eng Lt (rhs r) (Integer eng 0))) (Some v) iv],
            Inl ZeroDivisionError)
       \<and> (is_positive eng (Integer eng 0) \<noteq> Some True \<longrightarrow>
          is_negative eng (Integer eng 0) \<noteq> Some True \<longrightarrow>
            snd (both_sides_pow_ineq eng r (Some (Integer eng (- 1))) None (Some v))
              = Inl ZeroDivisionError
          \<and> (\<exists>qs. fst (both_sides_pow_ineq eng r (Some (Integer eng (- 1))) None (Some v))
                 = Is_positive (lhs r) # qs))"
  using assms pow_interval_zero [of r eng iv "Some v"] pow_global_zero [of r eng v]
  by blast

theorem reciprocal_zero_side_witness:
  "(lhs (Relational Ge (Symbol ''x'' None) (Lit 0)) = Integer terms 0
      \<or> rhs (Relational Ge (Symbol ''x'' None) (Lit 0)) = Integer terms 0)
   \<and> is_positive terms (Integer terms 0) \<noteq> Some True
   \<and> is_negative terms (Integer terms 0) \<noteq> Some True
   \<and> snd (both_sides_pow_ineq terms (Relational Ge (Symbol ''x'' None) (Lit 0))
            (Some (Integer terms (- 1))) (Some (Interval (- 1) 1)) (Some (Symbol ''x'' None)))
        = Inl ZeroDivisionError
   \<and> length (fst (both_sides_pow_ineq terms (Relational Ge (Symbol ''x'' None) (Lit 0))
            (Some (Integer terms (- 1))) (Some (Interval (- 1) 1)) (Some (Symbol ''x'' None))))
        = 4
   \<and> snd (both_sides_pow_ineq terms (Relational Ge (Symbol ''x'' None) (Lit 0))
            (Some (Integer terms (- 1))) None (Some (Symbol ''x'' None)))
        = Inl ZeroDivisionError
   \<and> (\<exists>qs. fst (both_sides_pow_ineq terms (Relational Ge (Symbol ''x'' None) (Lit 0))
            (Some (Integer terms (- 1))) None (Some (Symbol ''x'' None)))
        = Is_positive (Symbol ''x'' None) # qs)"
proof -
  have h: "lhs (Relational Ge (Symbol ''x'' None) (Lit 0)) = Integer terms 0
      \<or> rhs (Relational Ge (Symbol ''x'' None) (Lit 0)) = Integer terms 0"
    by (simp add: terms_def)
  have p: "is_positive terms (Integer terms 0) \<noteq> Some True"
    and n: "is_negative terms (Integer terms 0) \<noteq> Some True"
    by (simp_all add: terms_def)
  show ?thesis
    using h p n
      reciprocal_zero_side [OF h, of "Interval (- 1) 1" "Symbol ''x'' None"]
    by simp
qed

text \<open>The zero check does not come before the queries: with an interval, four solver queries
  are on the log when \<open>ZeroDivisionError\<close> is raised; and with neither interval nor variable
  the same relation raises \<open>TypeError\<close>.\<close>

theorem reciprocal_zero_check_order_counterexample:
  "both_sides_pow_ineq terms (Relational Ge (Lit 0) (Symbol ''x'' None))
     (Some (Lit (- 1))) (Some (Interval (- 1) 1)) (Some (Symbol ''x'' None))
   = ([Solveset (Formula BooleanFalse) (Some (Symbol ''x'' None)) (Interval (- 1) 1),
       Solveset (Formula (Unevaluated (Relational Gt (Symbol ''x'' None) (Lit 0))))
         (Some (Symbol ''x'' None)) (Interval (- 1) 1),
       Solveset (Formula BooleanFalse) (Some (Symbol ''x'' None)) (Interval (- 1) 1),
       Solveset (Formula (Unevaluated (Relational Lt (Symbol ''x'' None) (Lit 0))))
         (Some (Symbol ''x'' None)) (Interval (- 1) 1)],
      Inl ZeroDivisionError)
   \<and> both_sides_pow_ineq terms (Relational Ge (Lit 0) (Symbol ''x'' None))
       (Some (Lit (- 1))) None (Some (Symbol ''x'' None))
     = ([Is_positive (Lit 0), Is_positive (Lit 0), Is_negative (Lit 0), Is_negative (Lit 0)],
        Inl ZeroDivisionError)
   \<and> both_sides_pow_ineq terms (Relational Ge (Lit 0) (Symbol ''x'' None))
       (Some (Lit (- 1))) None None
     = ([], Inl TypeError)"
  by (simp add: both_sides_pow_ineq_def run_defs terms_defs)

text \<open>
  C6, at \<open>Ge(3, 2)\<close> with the interval from \<open>-1\<close> to \<open>1\<close> and no variable: the reciprocal
  hands the missing variable to the solver and returns a dictionary, while multiplication with
  an interval and no variable raises \<open>TypeError\<close>.
\<close>

theorem reciprocal_interval_without_variable:
  "both_sides terms (Relational Ge (Lit 3) (Lit 2))
     Pow_fn (Some (Lit (- 1))) (Some (Interval (- 1) 1)) None
   = ([Solveset (Formula BooleanTrue) None (Interval (- 1) 1),
       Solveset (Formula BooleanTrue) None (Interval (- 1) 1),
       Solveset (Formula BooleanFalse) None (Interval (- 1) 1),
       Solveset (Formula BooleanFalse) None (Interval (- 1) 1)],
      Inr (Cases [(Interval (- 1) 1,
                   Unevaluated (Relational Le (SDiv (Lit 1) (Lit 3)) (SDiv (Lit 1) (Lit 2))))]))
   \<and> both_sides terms (Relational Ge (Lit 3) (Lit 2))
       Mul (Some (Lit (- 1))) (Some (Interval (- 1) 1)) None
     = ([], Inl TypeError)"
  by (simp add: both_sides_def both_sides_pow_ineq_def both_sides_mul_ineq_def run_defs
      terms_defs inverse_relations_simps)

section \<open>The dispatcher\<close>

text \<open>
  C7. For a relation of kind \<open>Eq\<close> and any function and argument, when the two calls of the
  function on a side and the argument return, \<open>both_sides\<close> returns \<open>Eq\<close> called on the two
  values, whatever interval and variable it is given, and without a query; so does
  \<open>both_sides\<close> of the equation tools.
\<close>

theorem both_sides_equality:
  assumes "func r = Eq"
      and "call eng f [Some (lhs r), argument] = Inr l"
      and "call eng f [Some (rhs r), argument] = Inr r'"
  shows "both_sides eng r f argument interval variable = ([], Inr (Single (new eng Eq l r')))
       \<and> equation_tools_both_sides eng r f argument = ([], Inr (Single (new eng Eq l r')))"
  using assms
  by (simp add: both_sides_def equation_tools_both_sides_def Eq_of_calls_def no_query_def)

theorem both_sides_equality_witness:
  "func (Relational Eq (Symbol ''x'' None) (Lit 5)) = Eq
   \<and> call terms Add [Some (lhs (Relational Eq (Symbol ''x'' None) (Lit 5))), Some (Lit 2)]
       = Inr (App Add [Some (Symbol ''x'' None), Some (Lit 2)])
   \<and> call terms Add [Some (rhs (Relational Eq (Symbol ''x'' None) (Lit 5))), Some (Lit 2)]
       = Inr (App Add [Some (Lit 5), Some (Lit 2)])
   \<and> both_sides terms (Relational Eq (Symbol ''x'' None) (Lit 5)) Add (Some (Lit 2))
       (Some (Interval 0 1)) (Some (Symbol ''x'' None))
     = ([], Inr (Single (Unevaluated (Relational Eq
          (App Add [Some (Symbol ''x'' None), Some (Lit 2)])
          (App Add [Some (Lit 5), Some (Lit 2)])))))
   \<and> equation_tools_both_sides terms (Relational Eq (Symbol ''x'' None) (Lit 5)) Add
       (Some (Lit 2))
     = ([], Inr (Single (Unevaluated (Relational Eq
          (App Add [Some (Symbol ''x'' None), Some (Lit 2)])
          (App Add [Some (Lit 5), Some (Lit 2)])))))"
proof -
  have h1: "func (Relational Eq (Symbol ''x'' None) (Lit 5)) = Eq"
    by simp
  have h2: "call terms Add [Some (lhs (Relational Eq (Symbol ''x'' None) (Lit 5))), Some (Lit 2)]
       = Inr (App Add [Some (Symbol ''x'' None), Some (Lit 2)])"
    by (simp add: terms_def term_call_def)
  have h3: "call terms Add [Some (rhs (Relational Eq (Symbol ''x'' None) (Lit 5))), Some (Lit 2)]
       = Inr (App Add [Some (Lit 5), Some (Lit 2)])"
    by (simp add: terms_def term_call_def)
  have e: "new terms Eq (App Add [Some (Symbol ''x'' None), Some (Lit 2)])
             (App Add [Some (Lit 5), Some (Lit 2)])
       = Unevaluated (Relational Eq (App Add [Some (Symbol ''x'' None), Some (Lit 2)])
           (App Add [Some (Lit 5), Some (Lit 2)]))"
    by (simp add: terms_def term_call_def)
  show ?thesis
    using h1 h2 h3
      both_sides_equality [OF h1 h2 h3, of "Some (Interval 0 1)" "Some (Symbol ''x'' None)"]
    by (simp only: e)
qed

text \<open>For a kind other than \<open>Eq\<close> and a function of the rewrite list, the function is called on
  each side alone, without the argument; the first exception propagates, and no query is made.\<close>

lemma both_sides_rewrite_branch:
  assumes "func r \<noteq> Eq"
      and "f \<in> {factor, simplify, collect, expand, together, apart}"
  shows "both_sides eng r f argument interval variable =
    ([], case call eng f [Some (lhs r)] of
           Inl e \<Rightarrow> Inl e
         | Inr l \<Rightarrow>
             (case call eng f [Some (rhs r)] of
                Inl e \<Rightarrow> Inl e
              | Inr r' \<Rightarrow> Inr (Single (Unevaluated (Relational (func r) l r')))))"
  using assms by (auto simp add: both_sides_def no_query_def)

lemma both_sides_rewrite_returns:
  assumes "func r \<noteq> Eq"
      and "f \<in> {factor, simplify, collect, expand, together, apart}"
      and "call eng f [Some (lhs r)] = Inr l"
      and "call eng f [Some (rhs r)] = Inr r'"
  shows "both_sides eng r f argument interval variable =
           ([], Inr (Single (Unevaluated (Relational (func r) l r'))))"
  using assms by (simp add: both_sides_rewrite_branch)

lemma both_sides_rewrite_raises:
  assumes "func r \<noteq> Eq"
      and "f \<in> {factor, simplify, collect, expand, together, apart}"
      and "call eng f [Some (lhs r)] = Inl e"
  shows "both_sides eng r f argument interval variable = ([], Inl e)"
  using assms by (simp add: both_sides_rewrite_branch)

text \<open>
  C8, at \<open>Ge(x, 1)\<close> with \<open>collect\<close> and the argument \<open>x\<close>: the function is called as
  \<open>collect(x)\<close>, without the symbols it requires, and the call raises \<open>TypeError\<close> where a
  relation was to be returned; so it does for each of the four inequality kinds. At \<open>Eq(x, 1)\<close>
  the same call passes the argument and returns \<open>Eq(collect(x, x), collect(1, x))\<close>.
\<close>

theorem rewrite_collect_inequality_raises:
  "both_sides terms (Relational Ge (Symbol ''x'' None) (Lit 1)) collect
       (Some (Symbol ''x'' None)) None None = ([], Inl TypeError)
   \<and> both_sides terms (Relational Le (Symbol ''x'' None) (Lit 1)) collect
       (Some (Symbol ''x'' None)) None None = ([], Inl TypeError)
   \<and> both_sides terms (Relational Gt (Symbol ''x'' None) (Lit 1)) collect
       (Some (Symbol ''x'' None)) None None = ([], Inl TypeError)
   \<and> both_sides terms (Relational Lt (Symbol ''x'' None) (Lit 1)) collect
       (Some (Symbol ''x'' None)) None None = ([], Inl TypeError)
   \<and> both_sides terms (Relational Eq (Symbol ''x'' None) (Lit 1)) collect
       (Some (Symbol ''x'' None)) None None
     = ([], Inr (Single (Unevaluated (Relational Eq
          (App collect [Some (Symbol ''x'' None), Some (Symbol ''x'' None)])
          (App collect [Some (Lit 1), Some (Symbol ''x'' None)])))))"
  by (simp add: both_sides_def Eq_of_calls_def no_query_def terms_defs)

text \<open>The other functions of the list are called the same way and return: \<open>expand\<close> on
  \<open>Ge(x, 1)\<close> gives \<open>Ge(expand(x), expand(1))\<close>.\<close>

lemma rewrite_expand_inequality_returns:
  "both_sides terms (Relational Ge (Symbol ''x'' None) (Lit 1)) expand None None None
     = ([], Inr (Single (Unevaluated (Relational Ge
          (App expand [Some (Symbol ''x'' None)]) (App expand [Some (Lit 1)])))))"
  by (simp add: both_sides_def no_query_def terms_defs)

end
